theory Spec2Isabelle
  imports Main
begin

section \<open>Python strings\<close>

text \<open>
  Strings are lists of characters.  The string methods the two scripts use are given for
  ASCII text: a letter is one of A-Z or a-z, every other character is left as it is.
  An exception is the text of its message.
\<close>

type_synonym exn = string

definition nl :: string where
  "nl = [CHR 0x0A]"

fun str_join :: "string \<Rightarrow> string list \<Rightarrow> string" where
  "str_join sep [] = []"
| "str_join sep [x] = x"
| "str_join sep (x # y # ys) = x @ sep @ str_join sep (y # ys)"

definition digit_char :: "nat \<Rightarrow> char" where
  "digit_char d = ''0123456789'' ! d"

fun str_of_nat :: "nat \<Rightarrow> string" where
  "str_of_nat n =
     (if n < 10 then [digit_char n] else str_of_nat (n div 10) @ [digit_char (n mod 10)])"

declare str_of_nat.simps [simp del]

definition str_of_int :: "int \<Rightarrow> string" where
  "str_of_int i = (if i < 0 then CHR ''-'' # str_of_nat (nat (- i)) else str_of_nat (nat i))"

definition upper_letters :: string where
  "upper_letters = ''ABCDEFGHIJKLMNOPQRSTUVWXYZ''"

definition lower_letters :: string where
  "lower_letters = ''abcdefghijklmnopqrstuvwxyz''"

definition lower_char :: "char \<Rightarrow> char" where
  "lower_char c = (case map_of (zip upper_letters lower_letters) c of Some d \<Rightarrow> d | None \<Rightarrow> c)"

definition upper_char :: "char \<Rightarrow> char" where
  "upper_char c = (case map_of (zip lower_letters upper_letters) c of Some d \<Rightarrow> d | None \<Rightarrow> c)"

definition str_lower :: "string \<Rightarrow> string" where
  "str_lower s = map lower_char s"

definition is_letter :: "char \<Rightarrow> bool" where
  "is_letter c = (c \<in> set upper_letters \<or> c \<in> set lower_letters)"

text \<open>\<open>str.title()\<close>: a letter that follows a letter is lowered, any other letter is raised.\<close>

fun title_from :: "bool \<Rightarrow> string \<Rightarrow> string" where
  "title_from prev [] = []"
| "title_from prev (c # cs) =
     (if is_letter c then (if prev then lower_char c else upper_char c) # title_from True cs
      else c # title_from False cs)"

definition str_title :: "string \<Rightarrow> string" where
  "str_title s = title_from False s"

text \<open>\<open>str.strip()\<close> removes the white space at both ends.\<close>

definition is_space :: "char \<Rightarrow> bool" where
  "is_space c = (c \<in> set [CHR 0x09, CHR 0x0A, CHR 0x0B, CHR 0x0C, CHR 0x0D,
                            CHR 0x1C, CHR 0x1D, CHR 0x1E, CHR 0x1F, CHR 0x20])"

definition str_strip :: "string \<Rightarrow> string" where
  "str_strip s = rev (dropWhile is_space (rev (dropWhile is_space s)))"

text \<open>\<open>a in b\<close> on strings: \<open>a\<close> occurs in \<open>b\<close> as a contiguous piece.\<close>

fun startswith :: "string \<Rightarrow> string \<Rightarrow> bool" where
  "startswith s [] = True"
| "startswith [] (p # ps) = False"
| "startswith (c # cs) (p # ps) = (c = p \<and> startswith cs ps)"

fun str_in :: "string \<Rightarrow> string \<Rightarrow> bool" where
  "str_in a [] = (a = [])"
| "str_in a (c # cs) = (startswith (c # cs) a \<or> str_in a cs)"

text \<open>\<open>html.escape\<close> with its default \<open>quote=True\<close>.\<close>

fun html_escape :: "string \<Rightarrow> string" where
  "html_escape [] = []"
| "html_escape (c # cs) =
     (if c = CHR ''&'' then ''&amp;''
      else if c = CHR ''<'' then ''&lt;''
      else if c = CHR ''>'' then ''&gt;''
      else if c = CHR 0x22 then ''&quot;''
      else if c = CHR 0x27 then ''&#x27;''
      else [c]) @ html_escape cs"

text \<open>Truth value of an optional string (\<open>None\<close> and the empty string are false), and
  what an f-string prints for it.\<close>

fun truthy :: "string option \<Rightarrow> bool" where
  "truthy None = False"
| "truthy (Some s) = (s \<noteq> [])"

fun fstr :: "string option \<Rightarrow> string" where
  "fstr None = ''None''"
| "fstr (Some s) = s"

section \<open>The Calibre catalogue: records and their formatting\<close>

record attachment =
  local_path :: string
  drive_url :: "string option"

record format_entry =
  format :: string
  name :: string

text \<open>A row of \<open>list_calibre_books\<close>.  \<open>series_index\<close> is the number as Python prints it.\<close>

record book =
  book_id :: int
  title :: "string option"
  authors :: "string list"
  path :: string
  pubdate :: "string option"
  isbn :: "string option"
  series :: "string option"
  series_index :: string
  publisher :: "string option"
  formats :: "format_entry list"
  timestamp :: string

text \<open>
  \<open>get_attachment_paths\<close> resolves paths on the file system and queries the cloud storage
  account.  It is a parameter \<open>gap\<close> of the formatting functions: for a book it either
  raises (\<open>Inl\<close>) or returns the attachment descriptors.
\<close>

type_synonym resolver = "book \<Rightarrow> exn + attachment list"

definition attachment_line :: "attachment \<Rightarrow> string" where
  "attachment_line a =
     (if truthy (drive_url a)
      then ''  - '' @ local_path a @ '' (Drive: '' @ fstr (drive_url a) @ '')''
      else ''  - '' @ local_path a)"

definition format_book_text :: "resolver \<Rightarrow> book \<Rightarrow> exn + string" where
  "format_book_text gap b =
     (let output =
            [''Title: '' @ fstr (title b)]
            @ (if authors b \<noteq> [] then [''Authors: '' @ str_join ''; '' (authors b)] else [])
            @ (if truthy (series b)
               then [''Series: '' @ fstr (series b) @ '' ('' @ series_index b @ '')''] else [])
            @ (if truthy (publisher b) then [''Publisher: '' @ fstr (publisher b)] else [])
            @ (if truthy (pubdate b) then [''Date: '' @ fstr (pubdate b)] else [])
            @ (if truthy (isbn b) then [''ISBN: '' @ fstr (isbn b)] else [])
      in case gap b of
           Inl e \<Rightarrow> Inl e
         | Inr attachments \<Rightarrow>
             Inr (str_join nl
                   (output @ (if attachments \<noteq> []
                              then ''Attachments:'' # map attachment_line attachments
                              else []))))"

definition attachment_item :: "attachment \<Rightarrow> string" where
  "attachment_item a =
     (if truthy (drive_url a)
      then ''<li>'' @ html_escape (local_path a) @ '' - <a href='' @ [CHR 0x27]
           @ html_escape (fstr (drive_url a))
           @ [CHR 0x27] @ '' target='_blank'>View on Google Drive</a></li>''
      else ''<li>'' @ html_escape (local_path a) @ ''</li>'')"

definition format_book_html :: "resolver \<Rightarrow> book \<Rightarrow> exn + string" where
  "format_book_html gap b =
     (let html_parts =
            [''<div class='item'>'' @ ''<h2>''
               @ html_escape (if truthy (title b) then fstr (title b) else ''Unknown'')
               @ ''</h2>'']
            @ (if authors b \<noteq> []
               then [''<p><strong>Authors:</strong> ''
                     @ html_escape (str_join ''; '' (authors b)) @ ''</p>''] else [])
            @ (if truthy (series b)
               then [''<p><strong>Series:</strong> '' @ html_escape (fstr (series b))
                     @ '' ('' @ series_index b @ '')</p>''] else [])
            @ (if truthy (publisher b)
               then [''<p><strong>Publisher:</strong> ''
                     @ html_escape (fstr (publisher b)) @ ''</p>''] else [])
            @ (if truthy (pubdate b)
               then [''<p><strong>Date:</strong> ''
                     @ html_escape (fstr (pubdate b)) @ ''</p>''] else [])
            @ (if truthy (isbn b)
               then [''<p><strong>ISBN:</strong> ''
                     @ html_escape (fstr (isbn b)) @ ''</p>''] else [])
      in case gap b of
           Inl e \<Rightarrow> Inl e
         | Inr attachments \<Rightarrow>
             Inr (str_join nl
                   (html_parts
                    @ (if attachments \<noteq> []
                       then [''<p><strong>Attachments:</strong></p>'', ''<ul>'']
                            @ map attachment_item attachments @ [''</ul>'']
                       else [])
                    @ [''</div>''])))"

section \<open>The Calibre report renderer\<close>

text \<open>
  What a renderer takes from outside, beside the attachment resolver: the date of the run,
  the fixed text of the HTML page (\<open>generate_html_header\<close> for a title and an optional
  notice, \<open>generate_search_script\<close>), \<open>pdfkit.from_string\<close> (for a page and a path it
  raises, or gives the bytes it stores at the path) and \<open>open(path, 'w')\<close> (it raises, or
  the path can be written).  Progress lines, which \<open>print_progress\<close> writes only
  when \<open>verbose\<close> is set, are not part of the model.
\<close>

record render_env =
  current_date :: string
  generate_html_header :: "string \<Rightarrow> string option \<Rightarrow> string list"
  generate_search_script :: "string list"
  pdfkit :: "string \<Rightarrow> string \<Rightarrow> exn + string"
  open_w :: "string \<Rightarrow> exn option"

text \<open>The helper nested in \<open>generate_text_output\<close> and the module's \<open>format_single_book\<close>:
  an exception of the formatter becomes the fragment that reports it.\<close>

definition format_single_book_text :: "resolver \<Rightarrow> nat \<Rightarrow> book \<Rightarrow> string" where
  "format_single_book_text g idx b =
     (case format_book_text g b of
        Inr item_content \<Rightarrow> ''Book #'' @ str_of_nat (idx + 1) @ nl @ item_content @ nl @ ''---''
      | Inl e \<Rightarrow> ''Error formatting book '' @ str_of_nat (idx + 1) @ '': '' @ e @ nl @ ''---'')"

definition format_single_book :: "resolver \<Rightarrow> nat \<Rightarrow> book \<Rightarrow> string" where
  "format_single_book g idx b =
     (case format_book_html g b of
        Inr item_content \<Rightarrow>
          ''<div class='item-number'>Book #'' @ str_of_nat (idx + 1) @ ''</div>'' @ nl @ item_content
      | Inl e \<Rightarrow>
          ''<div class='item-error'>'' @ ''Error formatting book '' @ str_of_nat (idx + 1)
          @ '': '' @ e @ ''</div>'')"

text \<open>
  The worker pool.  Task \<open>i\<close> formats \<open>books[i]\<close>; \<open>as_completed\<close> hands the futures
  back in the order the tasks finish, the list \<open>completion\<close> of their indices.  Each result
  is stored with its index, the pairs are sorted by index (\<open>list.sort\<close> is stable, as
  \<open>sort_key\<close> is) and the indices dropped.  A task catches every exception of its
  formatter, so \<open>future.result()\<close> returns.
\<close>

definition generate_books_html :: "resolver \<Rightarrow> nat list \<Rightarrow> book list \<Rightarrow> string list" where
  "generate_books_html g completion books =
     (let formatted_books = map (\<lambda>idx. (idx, format_single_book g idx (books ! idx))) completion
      in map snd (sort_key fst formatted_books))"

definition report_title :: "string \<Rightarrow> string list \<Rightarrow> string" where
  "report_title date categories =
     (if categories \<noteq> []
      then str_title ((''Calibre Library: '' @ str_join '', '' categories) @ '' - '' @ date)
      else str_title (''Calibre Library - '' @ date))"

definition generate_text_output ::
  "render_env \<Rightarrow> resolver \<Rightarrow> nat list \<Rightarrow> string list \<Rightarrow> book list \<Rightarrow> string" where
  "generate_text_output env g completion categories books =
     (let title = report_title (current_date env) categories;
          header = [title, replicate (length title) (CHR ''=''), []];
          formatted_books =
            map (\<lambda>idx. (idx, format_single_book_text g idx (books ! idx))) completion;
          ordered_books = map snd (sort_key fst formatted_books)
      in str_join nl (header @ ordered_books))"

definition generate_search_container :: "string list" where
  "generate_search_container =
     [''<div class='search-container'>'',
      ''<input type='text' id='searchInput' placeholder='Search within this page...' />'',
      ''<button id='searchBtn'>Search</button>'',
      ''<span id='searchCount'></span>'',
      ''</div>'']"

definition generate_html_output ::
  "render_env \<Rightarrow> resolver \<Rightarrow> nat list \<Rightarrow> string option \<Rightarrow> string list \<Rightarrow> book list
     \<Rightarrow> string" where
  "generate_html_output env g completion notice categories books =
     (let title = report_title (current_date env) categories;
          html_parts = generate_html_header env title notice
                       @ generate_search_container
                       @ generate_books_html g completion books
                       @ generate_search_script env
      in str_join nl html_parts)"

text \<open>
  A mail message: its headers and its MIME parts, each a binary attachment (file name and
  payload) or a text body.
\<close>

datatype part = BinaryPart string string | TextPart string

record message =
  msg_to :: string
  msg_from :: string
  msg_subject :: string
  msg_parts :: "part list"

text \<open>
  What a call leaves behind: the lines printed on standard output and on standard error,
  the files written, and the messages handed to the mail relay, each with the recipients of
  the attempt, in the order of the attempts.  A call returns, leaves through \<open>sys.exit\<close>,
  or raises.
\<close>

record world =
  stdout :: "string list"
  stderr :: "string list"
  files :: "string \<rightharpoonup> string"
  mail_attempts :: "(string list \<times> message) list"

datatype outcome = Return | SysExit nat | Raise exn

datatype out_format = Text | Html | Pdf

definition print_out :: "string \<Rightarrow> world \<Rightarrow> world" where
  "print_out s w = w\<lparr>stdout := stdout w @ [s]\<rparr>"

definition print_err :: "string \<Rightarrow> world \<Rightarrow> world" where
  "print_err s w = w\<lparr>stderr := stderr w @ [s]\<rparr>"

text \<open>\<open>with open(output_file, 'w') as f: f.write(content)\<close>, then the line that reports it.\<close>

definition save_output ::
  "render_env \<Rightarrow> string \<Rightarrow> string \<Rightarrow> string \<Rightarrow> world \<Rightarrow> outcome \<times> world" where
  "save_output env label output_file content w =
     (case open_w env output_file of
        Some e \<Rightarrow> (Raise e, w)
      | None \<Rightarrow>
          (Return, print_out (label @ '' output saved to '' @ output_file)
                     (w\<lparr>files := (files w)(output_file \<mapsto> content)\<rparr>)))"

definition generate_pdf_output ::
  "render_env \<Rightarrow> string \<Rightarrow> string \<Rightarrow> world \<Rightarrow> outcome \<times> world" where
  "generate_pdf_output env html_content output_file w =
     (case pdfkit env html_content output_file of
        Inl e \<Rightarrow> (SysExit 1, w)
      | Inr pdf \<Rightarrow> (Return, w\<lparr>files := (files w)(output_file \<mapsto> pdf)\<rparr>))"

definition display_books ::
  "render_env \<Rightarrow> resolver \<Rightarrow> nat list \<Rightarrow> book list \<Rightarrow> out_format \<Rightarrow> string option
     \<Rightarrow> string option \<Rightarrow> string list \<Rightarrow> world \<Rightarrow> outcome \<times> world" where
  "display_books env g completion books output_format output_file notice categories w =
     (if books = [] then (Return, print_out ''No books found.'' w)
      else case output_format of
        Text \<Rightarrow>
          (let text_content = generate_text_output env g completion categories books
           in if truthy output_file then save_output env ''Text'' (fstr output_file) text_content w
              else (Return, print_out text_content w))
      | Html \<Rightarrow>
          (let html_content = generate_html_output env g completion notice categories books
           in if truthy output_file then save_output env ''HTML'' (fstr output_file) html_content w
              else (Return, print_out html_content w))
      | Pdf \<Rightarrow>
          (let html_content = generate_html_output env g completion notice categories books;
               pdf_file = (if truthy output_file then fstr output_file else ''calibre_books.pdf'')
           in case generate_pdf_output env html_content pdf_file w of
                (Return, w') \<Rightarrow> (Return, print_out (''PDF output saved to '' @ pdf_file) w')
              | (out, w') \<Rightarrow> (out, w')))"

section \<open>The Zotero report renderer\<close>

text \<open>
  A library item: its key and, of its \<open>data\<close>, the item type, the title and the
  \<open>relations\<close> field.  \<open>format_item_text\<close> and \<open>format_item_html\<close> call the library's API
  and the cloud storage; they are the parameters \<open>fit\<close> and \<open>fih\<close>, which raise or return
  the formatted item.
\<close>

record zitem =
  key :: string
  itemType :: "string option"
  item_title :: "string option"
  relations :: "string option"

type_synonym item_formatter = "zitem \<Rightarrow> exn + string"

definition format_single_item_text ::
  "item_formatter \<Rightarrow> string option \<Rightarrow> nat \<Rightarrow> zitem \<Rightarrow> string" where
  "format_single_item_text fit collection_name idx item =
     (case fit item of
        Inr item_content \<Rightarrow>
          fstr collection_name @ '' #'' @ str_of_nat (idx + 1) @ nl @ item_content @ nl @ ''---''
      | Inl e \<Rightarrow> ''Error formatting item '' @ str_of_nat (idx + 1) @ '': '' @ e @ nl @ ''---'')"

definition format_single_item ::
  "item_formatter \<Rightarrow> string option \<Rightarrow> nat \<Rightarrow> zitem \<Rightarrow> string" where
  "format_single_item fih collection_name idx item =
     (case fih item of
        Inr item_content \<Rightarrow>
          ''<div class='item-number'>'' @ fstr collection_name @ '' #'' @ str_of_nat (idx + 1)
          @ ''</div>'' @ nl @ item_content
      | Inl e \<Rightarrow>
          ''<div class='item-error'>'' @ ''Error formatting item '' @ str_of_nat (idx + 1)
          @ '': '' @ e @ ''</div>'')"

definition generate_items_html ::
  "item_formatter \<Rightarrow> string option \<Rightarrow> nat list \<Rightarrow> zitem list \<Rightarrow> string list" where
  "generate_items_html fih collection_name completion items =
     (let formatted_items =
            map (\<lambda>idx. (idx, format_single_item fih collection_name idx (items ! idx))) completion
      in map snd (sort_key fst formatted_items))"

definition zot_report_title :: "string \<Rightarrow> string option \<Rightarrow> string" where
  "zot_report_title date collection_name =
     (if truthy collection_name
      then str_title (''Zotero Collection: '' @ fstr collection_name @ '' - '' @ date)
      else str_title (''Zotero Items - '' @ date))"

definition zot_generate_text_output ::
  "render_env \<Rightarrow> item_formatter \<Rightarrow> nat list \<Rightarrow> string option \<Rightarrow> zitem list \<Rightarrow> string" where
  "zot_generate_text_output env fit completion collection_name items =
     (let title = zot_report_title (current_date env) collection_name;
          header = [title, replicate (length title) (CHR ''=''), []];
          formatted_items =
            map (\<lambda>idx. (idx, format_single_item_text fit collection_name idx (items ! idx)))
              completion;
          ordered_items = map snd (sort_key fst formatted_items)
      in str_join nl (header @ ordered_items))"

definition zot_generate_html_output ::
  "render_env \<Rightarrow> item_formatter \<Rightarrow> nat list \<Rightarrow> string option \<Rightarrow> string option \<Rightarrow> zitem list
     \<Rightarrow> string" where
  "zot_generate_html_output env fih completion notice collection_name items =
     (let title = zot_report_title (current_date env) collection_name;
          html_parts = generate_html_header env title notice
                       @ generate_search_container
                       @ generate_items_html fih collection_name completion items
                       @ generate_search_script env
      in str_join nl html_parts)"

definition display_items ::
  "render_env \<Rightarrow> item_formatter \<Rightarrow> item_formatter \<Rightarrow> nat list \<Rightarrow> zitem list \<Rightarrow> out_format
     \<Rightarrow> string option \<Rightarrow> string option \<Rightarrow> string option \<Rightarrow> world \<Rightarrow> outcome \<times> world" where
  "display_items env fit fih completion items output_format output_file collection_name notice w =
     (if items = [] then (Return, print_out ''No items found.'' w)
      else case output_format of
        Text \<Rightarrow>
          (let text_content = zot_generate_text_output env fit completion collection_name items
           in if truthy output_file then save_output env ''Text'' (fstr output_file) text_content w
              else (Return, print_out text_content w))
      | Html \<Rightarrow>
          (let html_content =
                 zot_generate_html_output env fih completion notice collection_name items
           in if truthy output_file then save_output env ''HTML'' (fstr output_file) html_content w
              else (Return, print_out html_content w))
      | Pdf \<Rightarrow>
          (let html_content =
                 zot_generate_html_output env fih completion notice collection_name items;
               pdf_file = (if truthy output_file then fstr output_file else ''zotero_items.pdf'')
           in case generate_pdf_output env html_content pdf_file w of
                (Return, w') \<Rightarrow> (Return, print_out (''PDF output saved to '' @ pdf_file) w')
              | (out, w') \<Rightarrow> (out, w')))"

section \<open>The source locators\<close>

text \<open>
  A locator consults its sources in a fixed order.  Each function that consults a source
  appends the source to a log, so that the log of a call lists the sources consulted, in
  order.
\<close>

datatype source = LocalDb | DriveDb | OnlineApi

subsection \<open>Zotero: \<open>get_items\<close>\<close>

text \<open>
  What \<open>get_items\<close> takes from outside: the home directory and \<open>os.path.exists\<close>; for a
  database file, what the body of \<open>get_items_from_sqlite\<close>'s \<open>try\<close> does (it raises, or
  reaches \<open>return items\<close>); whether cloud credentials are set; what the search for and the
  download of \<open>zotero.sqlite\<close> in the cloud storage do (raise, find nothing usable, or
  leave the file at a temporary path); and what the library's API answers (it raises, or
  returns the items).
\<close>

record zot_env =
  home :: string
  path_exists :: "string \<Rightarrow> bool"
  sqlite_items :: "string \<Rightarrow> exn + zitem list"
  zot_google_creds :: bool
  drive_sqlite :: "exn + string option"
  api_items :: "exn + zitem list"

definition local_paths :: "zot_env \<Rightarrow> string list" where
  "local_paths env =
     [home env @ ''/Zotero/zotero.sqlite'',
      home env @ ''/Library/Application Support/Zotero/zotero.sqlite'',
      home env @ ''/.zotero/zotero.sqlite'',
      ''./zotero.sqlite'']"

definition get_items_from_sqlite :: "zot_env \<Rightarrow> string \<Rightarrow> zitem list" where
  "get_items_from_sqlite env db_path =
     (case sqlite_items env db_path of Inl e \<Rightarrow> [] | Inr items \<Rightarrow> items)"

text \<open>Only the first local path that exists is tried.\<close>

definition get_items_from_local_db :: "zot_env \<Rightarrow> source list \<Rightarrow> zitem list \<times> source list" where
  "get_items_from_local_db env log =
     (case find (path_exists env) (local_paths env) of
        None \<Rightarrow> ([], log @ [LocalDb])
      | Some p \<Rightarrow> (get_items_from_sqlite env p, log @ [LocalDb]))"

definition get_items_from_gdrive :: "zot_env \<Rightarrow> source list \<Rightarrow> zitem list \<times> source list" where
  "get_items_from_gdrive env log =
     (if \<not> zot_google_creds env then ([], log)
      else case drive_sqlite env of
             Inl e \<Rightarrow> ([], log @ [DriveDb])
           | Inr None \<Rightarrow> ([], log @ [DriveDb])
           | Inr (Some temp_path) \<Rightarrow> (get_items_from_sqlite env temp_path, log @ [DriveDb]))"

definition api_filtered :: "zot_env \<Rightarrow> zitem list" where
  "api_filtered env =
     (case api_items env of
        Inl e \<Rightarrow> []
      | Inr items \<Rightarrow>
          map (\<lambda>item. item\<lparr>relations := None\<rparr>)
            (filter (\<lambda>item. itemType item \<notin> {Some ''note'', Some ''attachment''}) items))"

definition get_items :: "zot_env \<Rightarrow> source list \<Rightarrow> zitem list \<times> source list" where
  "get_items env log =
     (case get_items_from_local_db env log of
        (items, log1) \<Rightarrow>
          if items \<noteq> [] then (items, log1)
          else case (if zot_google_creds env then get_items_from_gdrive env log1
                     else ([], log1)) of
                 (items2, log2) \<Rightarrow>
                   if items2 \<noteq> [] then (items2, log2)
                   else (api_filtered env, log2 @ [OnlineApi]))"

subsection \<open>Calibre: \<open>connect_to_calibre_db\<close>\<close>

text \<open>
  What \<open>connect_to_calibre_db\<close> takes from outside: \<open>os.path.exists\<close>; whether cloud
  credentials are set; the folders named ``Calibre Library'' in the cloud storage (building
  the client and listing them may raise); for a folder, the file \<open>metadata.db\<close> in it, if
  any (the query may raise); the download of a file to the temporary path (it may raise);
  the link \<open>get_drive_url_by_filename\<close> finds for \<open>metadata.db\<close> anywhere (that function
  catches its own exceptions); and the search for the file anywhere (it may raise).
\<close>

record cal_sources =
  db_exists :: "string \<Rightarrow> bool"
  cal_google_creds :: bool
  list_folders :: "exn + (string \<times> string) list"
  find_in_folder :: "string \<Rightarrow> exn + string option"
  download_db :: "string \<Rightarrow> exn option"
  url_by_filename :: "string option"
  search_anywhere :: "exn + string option"
  temp_db_path :: string

datatype conn = Conn string

datatype py_error = FileNotFoundError string | Exception string

text \<open>\<open>os.path.join\<close> of a directory and a relative name.\<close>

definition os_path_join :: "string \<Rightarrow> string \<Rightarrow> string" where
  "os_path_join a b =
     (if a = [] then b else if last a = CHR ''/'' then a @ b else a @ ''/'' @ b)"

definition download_and_connect :: "cal_sources \<Rightarrow> string \<Rightarrow> exn + conn option" where
  "download_and_connect env file_id =
     (case download_db env file_id of
        Some e \<Rightarrow> Inl e
      | None \<Rightarrow> Inr (Some (Conn (temp_db_path env))))"

fun try_folders :: "cal_sources \<Rightarrow> (string \<times> string) list \<Rightarrow> exn + conn option" where
  "try_folders env [] = Inr None"
| "try_folders env ((folder_id, folder_name) # folders) =
     (case find_in_folder env folder_id of
        Inl e \<Rightarrow> Inl e
      | Inr None \<Rightarrow> try_folders env folders
      | Inr (Some file_id) \<Rightarrow> download_and_connect env file_id)"

text \<open>The body of the \<open>try\<close>: the folders first, then the search anywhere in the storage.\<close>

definition drive_search :: "cal_sources \<Rightarrow> exn + conn option" where
  "drive_search env =
     (case list_folders env of
        Inl e \<Rightarrow> Inl e
      | Inr folders \<Rightarrow>
          (case try_folders env folders of
             Inl e \<Rightarrow> Inl e
           | Inr (Some c) \<Rightarrow> Inr (Some c)
           | Inr None \<Rightarrow>
               if truthy (url_by_filename env)
               then (case search_anywhere env of
                       Inl e \<Rightarrow> Inl e
                     | Inr None \<Rightarrow> Inr None
                     | Inr (Some file_id) \<Rightarrow> download_and_connect env file_id)
               else Inr None))"

definition not_found_message :: "string \<Rightarrow> string" where
  "not_found_message db_path =
     ''Calibre database not found at '' @ db_path @ '' and not found in Google Drive.''"

definition connect_to_calibre_db ::
  "cal_sources \<Rightarrow> string \<Rightarrow> source list \<Rightarrow> (py_error + conn) \<times> source list" where
  "connect_to_calibre_db env library_path log =
     (let db_path = os_path_join library_path ''metadata.db''
      in if db_exists env db_path then (Inr (Conn db_path), log @ [LocalDb])
         else if cal_google_creds env
         then (case drive_search env of
                 Inr (Some c) \<Rightarrow> (Inr c, log @ [LocalDb, DriveDb])
               | Inl e \<Rightarrow>
                   (Inl (FileNotFoundError
                          (''Could not find or download Calibre database: '' @ e)),
                    log @ [LocalDb, DriveDb])
               | Inr None \<Rightarrow>
                   (Inl (FileNotFoundError (not_found_message db_path)),
                    log @ [LocalDb, DriveDb]))
         else (Inl (FileNotFoundError (not_found_message db_path)), log @ [LocalDb]))"

subsection \<open>What a source yields\<close>




section \<open>The Calibre selector and mailer\<close>

subsection \<open>Filtering by tag\<close>

text \<open>
  \<open>main\<close> lowers the tags given on the command line, drops the blank ones, and keeps a
  book when one of them occurs in one of the book's lowered tags, or the other way round.
  \<open>tags_of\<close> is the query for the tag names of a book.
\<close>

definition parse_categories :: "string list \<Rightarrow> string list" where
  "parse_categories tag =
     map (\<lambda>cat. str_lower (str_strip cat)) (filter (\<lambda>cat. str_strip cat \<noteq> []) tag)"

definition tag_match :: "string list \<Rightarrow> string list \<Rightarrow> bool" where
  "tag_match categories book_tags =
     list_ex (\<lambda>cat. list_ex (\<lambda>tag. str_in cat tag \<or> str_in tag cat) book_tags) categories"

definition filter_by_tags :: "(int \<Rightarrow> string list) \<Rightarrow> string list \<Rightarrow> book list \<Rightarrow> book list" where
  "filter_by_tags tags_of categories books =
     filter (\<lambda>b. tag_match categories (map str_lower (tags_of (book_id b)))) books"

subsection \<open>Selecting the books to send\<close>

fun select_by_id :: "book list \<Rightarrow> int list \<Rightarrow> book list \<Rightarrow> world \<Rightarrow> book list \<times> world" where
  "select_by_id books [] selected_books w = (selected_books, w)"
| "select_by_id books (bid # bids) selected_books w =
     (case find (\<lambda>b. book_id b = bid) books of
        Some found \<Rightarrow> select_by_id books bids (selected_books @ [found]) w
      | None \<Rightarrow>
          select_by_id books bids selected_books
            (print_err (''Warning: Book with ID '' @ str_of_int bid @ '' not found.'') w))"

definition title_matches :: "book list \<Rightarrow> string \<Rightarrow> book list" where
  "title_matches books title_query =
     filter (\<lambda>b. str_in (str_lower title_query)
                   (str_lower (if truthy (title b) then fstr (title b) else [])))
       books"

text \<open>The inner loop: a match is appended unless it is in the list already.\<close>

fun add_matches :: "book list \<Rightarrow> book list \<Rightarrow> book list" where
  "add_matches selected_books [] = selected_books"
| "add_matches selected_books (m # ms) =
     add_matches (if m \<in> set selected_books then selected_books else selected_books @ [m]) ms"

fun select_by_title :: "book list \<Rightarrow> string list \<Rightarrow> book list \<Rightarrow> world \<Rightarrow> book list \<times> world" where
  "select_by_title books [] selected_books w = (selected_books, w)"
| "select_by_title books (title_query # qs) selected_books w =
     (let matches = title_matches books title_query
      in if matches \<noteq> []
         then select_by_title books qs (add_matches selected_books matches) w
         else select_by_title books qs selected_books
                (print_err (''Warning: No book found matching title '' @ [CHR 0x27]
                            @ title_query @ [CHR 0x27] @ ''.'') w))"

subsection \<open>Random selection and the sent-log\<close>

text \<open>
  The sent-log is the file \<open>sent_books.txt\<close>.  \<open>split_lines\<close> cuts a text at every line
  feed and carriage return; the reader strips each piece and drops the empty ones, so a
  carriage return followed by a line feed, which is one line end for Python and two here,
  makes no difference.  \<open>random.choice\<close> takes the element at a position below the length,
  here given by the number \<open>r\<close>.
\<close>

definition sent_books_file :: string where
  "sent_books_file = ''sent_books.txt''"

fun split_lines :: "string \<Rightarrow> string list" where
  "split_lines [] = [[]]"
| "split_lines (c # cs) =
     (if c = CHR 0x0A \<or> c = CHR 0x0D then [] # split_lines cs
      else case split_lines cs of [] \<Rightarrow> [[c]] | l # ls \<Rightarrow> (c # l) # ls)"

definition read_sent_ids :: "world \<Rightarrow> string set" where
  "read_sent_ids w =
     (case files w sent_books_file of
        None \<Rightarrow> {}
      | Some content \<Rightarrow> set (filter (\<lambda>line. line \<noteq> []) (map str_strip (split_lines content))))"

definition random_choice :: "nat \<Rightarrow> 'a list \<Rightarrow> 'a" where
  "random_choice r xs = xs ! (r mod length xs)"

definition append_file :: "string \<Rightarrow> string \<Rightarrow> world \<Rightarrow> world" where
  "append_file file_name s w =
     w\<lparr>files := (files w)(file_name \<mapsto>
          (case files w file_name of None \<Rightarrow> [] | Some content \<Rightarrow> content) @ s)\<rparr>"

definition select_random_book :: "book list \<Rightarrow> nat \<Rightarrow> world \<Rightarrow> book option \<times> world" where
  "select_random_book books r w =
     (if books = [] then (None, w)
      else let sent_ids = read_sent_ids w;
               unsent_books = filter (\<lambda>b. str_of_int (book_id b) \<notin> sent_ids) books
           in if unsent_books = [] then (None, w)
              else let selected_book = random_choice r unsent_books
                   in (Some selected_book,
                       append_file sent_books_file (str_of_int (book_id selected_book) @ nl) w))"

subsection \<open>Sending a book\<close>

text \<open>
  What the mailer takes from outside: for a file of the cloud storage, its metadata (name
  and, when given, size; the request may raise) and its content (the download may raise);
  and the mail relay, which for a recipient and a message raises or accepts the message.
\<close>

record mail_env =
  drive_meta :: "string \<Rightarrow> exn + (string \<times> nat option)"
  drive_media :: "string \<Rightarrow> exn + string"
  smtp_send :: "string \<Rightarrow> message \<Rightarrow> exn option"

text \<open>\<open>re.search\<close> for one of the markers followed by a non-empty group of the
  characters \<open>ok\<close>: the leftmost place where a marker and a group stand, and the longest
  group there.\<close>

fun re_search_group :: "string list \<Rightarrow> (char \<Rightarrow> bool) \<Rightarrow> string \<Rightarrow> string option" where
  "re_search_group markers ok [] = None"
| "re_search_group markers ok (c # cs) =
     (case find (\<lambda>m. startswith (c # cs) m \<and> takeWhile ok (drop (length m) (c # cs)) \<noteq> [])
             markers of
        Some m \<Rightarrow> Some (takeWhile ok (drop (length m) (c # cs)))
      | None \<Rightarrow> re_search_group markers ok cs)"

definition is_id_char :: "char \<Rightarrow> bool" where
  "is_id_char c = (is_letter c \<or> c \<in> set ''0123456789_-'')"

definition url_file_id :: "string \<Rightarrow> string option" where
  "url_file_id url =
     (case re_search_group [''/d/''] is_id_char url of
        Some file_id \<Rightarrow> Some file_id
      | None \<Rightarrow> re_search_group [''id=''] is_id_char url)"

definition size_limit :: nat where
  "size_limit = 20 * 1024 * 1024"

text \<open>One round of the attachment loop: the part to attach, if this attachment gives one.\<close>

definition try_attach :: "mail_env \<Rightarrow> attachment \<Rightarrow> part option" where
  "try_attach env a =
     (if truthy (drive_url a)
      then (case url_file_id (fstr (drive_url a)) of
              None \<Rightarrow> None
            | Some file_id \<Rightarrow>
                (case drive_meta env file_id of
                   Inl e \<Rightarrow> None
                 | Inr (file_name, file_size) \<Rightarrow>
                     if (case file_size of None \<Rightarrow> 0 | Some n \<Rightarrow> n) \<le> size_limit
                     then (case drive_media env file_id of
                             Inl e \<Rightarrow> None
                           | Inr payload \<Rightarrow> Some (BinaryPart file_name payload))
                     else None))
      else None)"

fun attach_first :: "mail_env \<Rightarrow> attachment list \<Rightarrow> part option" where
  "attach_first env [] = None"
| "attach_first env (a # as) =
     (case try_attach env a of Some p \<Rightarrow> Some p | None \<Rightarrow> attach_first env as)"

definition drive_links_of :: "attachment list \<Rightarrow> string list" where
  "drive_links_of attachments =
     map (\<lambda>a. local_path a @ '': '' @ fstr (drive_url a))
       (filter (\<lambda>a. truthy (drive_url a)) attachments)"

definition calibre_notice :: string where
  "calibre_notice = nl @ nl @ ''This email was sent automatically via the <a href='' @ [CHR 0x27]
     @ ''https://hoanganhduc.github.io/library/zotero/list-calibre-collection.py'' @ [CHR 0x27]
     @ ''>list-calibre-collection.py</a> script.''"

definition send_book_email ::
  "mail_env \<Rightarrow> resolver \<Rightarrow> bool \<Rightarrow> book \<Rightarrow> string \<Rightarrow> string \<Rightarrow> world \<Rightarrow> exn option \<times> world" where
  "send_book_email env g google_creds b recipient_email gmail_username w =
     (case g b of
        Inl e \<Rightarrow> (Some e, w)
      | Inr attachments \<Rightarrow>
          (let attached = (if google_creds then attach_first env attachments else None)
           in case format_book_text g b of
                Inl e \<Rightarrow> (Some e, w)
              | Inr body0 \<Rightarrow>
                  (let drive_links = (if attached = None \<and> attachments \<noteq> []
                                      then drive_links_of attachments else []);
                       body = body0
                              @ (if drive_links \<noteq> []
                                 then nl @ nl @ ''Google Drive Links:'' @ nl
                                      @ str_join nl drive_links
                                 else [])
                              @ calibre_notice;
                       msg = \<lparr>msg_to = recipient_email, msg_from = gmail_username,
                              msg_subject = ''[Calibre] Random Book: '' @ fstr (title b),
                              msg_parts = (case attached of Some p \<Rightarrow> [p] | None \<Rightarrow> [])
                                          @ [TextPart body]\<rparr>;
                       w' = w\<lparr>mail_attempts := mail_attempts w @ [([recipient_email], msg)]\<rparr>
                   in (smtp_send env recipient_email msg, w'))))"

text \<open>The two loops of \<open>main\<close>: every selected book to every recipient, in this order.  An
  exception of \<open>send_book_email\<close> leaves both loops.\<close>

fun send_to_recipients ::
  "mail_env \<Rightarrow> resolver \<Rightarrow> bool \<Rightarrow> string \<Rightarrow> book \<Rightarrow> string list \<Rightarrow> world \<Rightarrow> exn option \<times> world" where
  "send_to_recipients env g creds user b [] w = (None, w)"
| "send_to_recipients env g creds user b (r # rs) w =
     (case send_book_email env g creds b r user w of
        (Some e, w') \<Rightarrow> (Some e, w')
      | (None, w') \<Rightarrow>
          send_to_recipients env g creds user b rs
            (print_out (''Book '' @ [CHR 0x27] @ fstr (title b) @ [CHR 0x27] @ '' sent to ''
                        @ r @ ''.'') w'))"

fun send_all ::
  "mail_env \<Rightarrow> resolver \<Rightarrow> bool \<Rightarrow> string \<Rightarrow> book list \<Rightarrow> string list \<Rightarrow> world \<Rightarrow> exn option \<times> world" where
  "send_all env g creds user [] rs w = (None, w)"
| "send_all env g creds user (b # bs) rs w =
     (case send_to_recipients env g creds user b rs w of
        (Some e, w') \<Rightarrow> (Some e, w')
      | (None, w') \<Rightarrow> send_all env g creds user bs rs w')"

subsection \<open>\<open>main\<close>\<close>

text \<open>
  The command line, and everything the script takes from outside: the sources of the
  locator, the rows of \<open>list_calibre_books\<close> for a connection (newest first), the tag names
  of a book, the attachment resolver, the renderer's and the mailer's environment.  The
  result is the exit code of the process.
\<close>

record args =
  arg_library_path :: string
  arg_output_format :: out_format
  arg_output_file :: "string option"
  arg_notice :: "string option"
  arg_tag :: "string list"
  arg_send_email :: bool
  arg_recipient :: "string list"
  arg_random :: bool
  arg_book_id :: "int list"
  arg_book_title :: "string list"
  arg_gmail_username :: "string option"
  arg_gmail_app_password :: "string option"

record cal_app =
  sources :: cal_sources
  list_calibre_books :: "conn \<Rightarrow> book list"
  book_tags :: "conn \<Rightarrow> int \<Rightarrow> string list"
  get_attachment_paths :: resolver
  render :: render_env
  mail :: mail_env

fun error_text :: "py_error \<Rightarrow> string" where
  "error_text (FileNotFoundError m) = m"
| "error_text (Exception m) = m"

text \<open>The end of \<open>main\<close>: a normal return is exit code 0, \<open>sys.exit(n)\<close> is \<open>n\<close>, and an
  exception is caught, reported and turned into exit code 1.\<close>

fun exit_of :: "outcome \<times> world \<Rightarrow> nat \<times> world" where
  "exit_of (Return, w) = (0, w)"
| "exit_of (SysExit n, w) = (n, w)"
| "exit_of (Raise e, w) = (1, print_err (''Error: '' @ e) w)"

definition send_selected :: "cal_app \<Rightarrow> args \<Rightarrow> book list \<Rightarrow> world \<Rightarrow> nat \<times> world" where
  "send_selected app a selected_books w =
     (case send_all (mail app) (get_attachment_paths app) (cal_google_creds (sources app))
             (fstr (arg_gmail_username a)) selected_books (arg_recipient a) w of
        (Some e, w') \<Rightarrow> exit_of (Raise e, w')
      | (None, w') \<Rightarrow> (0, w'))"

definition email_mode ::
  "cal_app \<Rightarrow> args \<Rightarrow> conn \<Rightarrow> book list \<Rightarrow> nat \<Rightarrow> world \<Rightarrow> nat \<times> world" where
  "email_mode app a c books r w =
     (if arg_recipient a = []
      then (1, print_err ''Error: --recipient is required when using --send-email'' w)
      else if \<not> truthy (arg_gmail_username a) \<or> \<not> truthy (arg_gmail_app_password a)
      then (1, print_err
                 ''Error: --gmail-username and --gmail-app-password are required for sending email.''
                 w)
      else if arg_book_id a \<noteq> []
      then (case select_by_id books (arg_book_id a) [] w of
              (selected_books, w') \<Rightarrow>
                if selected_books = []
                then (1, print_err ''Error: None of the specified book IDs were found.'' w')
                else send_selected app a selected_books w')
      else if arg_book_title a \<noteq> []
      then (case select_by_title books (arg_book_title a) [] w of
              (selected_books, w') \<Rightarrow>
                if selected_books = []
                then (1, print_err ''Error: None of the specified book titles were found.'' w')
                else send_selected app a selected_books w')
      else (case select_random_book (list_calibre_books app c) r w of
              (None, w') \<Rightarrow> (1, print_err ''Error: No unsent books available to send.'' w')
            | (Some selected_book, w') \<Rightarrow> send_selected app a [selected_book] w'))"

definition main :: "cal_app \<Rightarrow> args \<Rightarrow> nat \<Rightarrow> nat list \<Rightarrow> world \<Rightarrow> nat \<times> world" where
  "main app a r completion w =
     (case fst (connect_to_calibre_db (sources app) (arg_library_path a) []) of
        Inl err \<Rightarrow> exit_of (Raise (error_text err), w)
      | Inr c \<Rightarrow>
          (let categories = (if arg_tag a \<noteq> [] then parse_categories (arg_tag a) else []);
               all_books = list_calibre_books app c;
               books = (if categories \<noteq> []
                        then filter_by_tags (book_tags app c) categories all_books
                        else all_books)
           in if arg_send_email a then email_mode app a c books r w
              else exit_of (display_books (render app) (get_attachment_paths app) completion
                              books (arg_output_format a) (arg_output_file a) (arg_notice a) categories w)))"

section \<open>The Zotero title search\<close>

text \<open>
  What the searches take from outside: opening a database file for the search (it may
  raise); for a database file and a search term, the rows that the cursor delivers and the
  exception, if any, that ends the iteration after them; and the answer of the library's
  API to a search term (it raises, or returns items).  A row is turned into an item with
  its key, title and item type.
\<close>

record zot_search_env =
  search_connect :: "string \<Rightarrow> exn option"
  search_rows :: "string \<Rightarrow> string \<Rightarrow> zitem list \<times> exn option"
  api_search :: "string \<Rightarrow> exn + zitem list"

text \<open>The body of the loop over the rows of one query: \<open>results\<close> and \<open>seen_keys\<close>.\<close>

fun add_rows :: "zitem list \<Rightarrow> zitem list \<times> string set \<Rightarrow> zitem list \<times> string set" where
  "add_rows [] (results, seen_keys) = (results, seen_keys)"
| "add_rows (row # rows) (results, seen_keys) =
     (if key row \<notin> seen_keys
      then add_rows rows (results @ [row], insert (key row) seen_keys)
      else add_rows rows (results, seen_keys))"

text \<open>The loop over the queries.  An exception leaves it; the results found so far stay in
  \<open>results\<close>, which the function returns after the handler.\<close>

fun run_queries ::
  "(string \<Rightarrow> zitem list \<times> exn option) \<Rightarrow> string list \<Rightarrow> zitem list \<times> string set
     \<Rightarrow> zitem list \<times> string set" where
  "run_queries rows_of [] st = st"
| "run_queries rows_of (query # queries) st =
     (case rows_of query of
        (rows, None) \<Rightarrow> run_queries rows_of queries (add_rows rows st)
      | (rows, Some e) \<Rightarrow> add_rows rows st)"

definition search_sqlite_db :: "zot_search_env \<Rightarrow> string \<Rightarrow> string list \<Rightarrow> zitem list" where
  "search_sqlite_db senv sqlite_path queries =
     (case search_connect senv sqlite_path of
        Some e \<Rightarrow> []
      | None \<Rightarrow> fst (run_queries (search_rows senv sqlite_path) queries ([], {})))"

definition search_local_sqlite :: "zot_env \<Rightarrow> zot_search_env \<Rightarrow> string list \<Rightarrow> zitem list" where
  "search_local_sqlite env senv queries =
     (case find (path_exists env) (local_paths env) of
        None \<Rightarrow> []
      | Some p \<Rightarrow> search_sqlite_db senv p queries)"

text \<open>\<open>search_drive_sqlite\<close> has no handler of its own: an exception of the cloud client
  leaves it.\<close>

definition search_drive_sqlite ::
  "zot_env \<Rightarrow> zot_search_env \<Rightarrow> string list \<Rightarrow> exn + zitem list" where
  "search_drive_sqlite env senv queries =
     (if \<not> zot_google_creds env then Inr []
      else case drive_sqlite env of
             Inl e \<Rightarrow> Inl e
           | Inr None \<Rightarrow> Inr []
           | Inr (Some temp_path) \<Rightarrow> Inr (search_sqlite_db senv temp_path queries))"

fun api_add :: "zitem list \<Rightarrow> zitem list \<times> string set \<Rightarrow> zitem list \<times> string set" where
  "api_add [] (all_results, all_item_keys) = (all_results, all_item_keys)"
| "api_add (item # items) (all_results, all_item_keys) =
     (if itemType item \<notin> {Some ''attachment'', Some ''note''} \<and> key item \<notin> all_item_keys
      then api_add items (all_results @ [item], insert (key item) all_item_keys)
      else api_add items (all_results, all_item_keys))"

fun api_queries ::
  "(string \<Rightarrow> exn + zitem list) \<Rightarrow> string list \<Rightarrow> zitem list \<times> string set
     \<Rightarrow> exn + zitem list \<times> string set" where
  "api_queries items_of [] st = Inr st"
| "api_queries items_of (query # queries) st =
     (case items_of query of
        Inl e \<Rightarrow> Inl e
      | Inr results \<Rightarrow> api_queries items_of queries (api_add results st))"

definition search_zotero_api :: "zot_search_env \<Rightarrow> string list \<Rightarrow> zitem list" where
  "search_zotero_api senv queries =
     (case api_queries (api_search senv) queries ([], {}) of
        Inl e \<Rightarrow> []
      | Inr (all_results, all_item_keys) \<Rightarrow> all_results)"

definition find_papers_by_title ::
  "zot_env \<Rightarrow> zot_search_env \<Rightarrow> string list \<Rightarrow> exn + zitem list" where
  "find_papers_by_title env senv title_queries =
     (let results = search_local_sqlite env senv title_queries
      in if results \<noteq> [] then Inr results
         else case search_drive_sqlite env senv title_queries of
                Inl e \<Rightarrow> Inl e
              | Inr results2 \<Rightarrow>
                  if results2 \<noteq> [] then Inr results2
                  else Inr (search_zotero_api senv title_queries))"

section \<open>The Zotero mailer\<close>

text \<open>
  What the mailer takes from outside: the attachment descriptors of an item (the Zotero
  \<open>get_attachment_paths\<close> catches its exceptions); the download of a file of the cloud
  storage, which gives the temporary path and the size of the file there, or nothing when
  it failed; the content of a path when it is read for attaching (nothing when the path
  does not exist or cannot be read); the mail relay, which for the recipients and a message
  raises or accepts the message; and the authors and the DOI of an item.
\<close>

record zot_mail_env =
  zot_attachments :: "zitem \<Rightarrow> attachment list"
  zot_download :: "string \<Rightarrow> (string \<times> nat) option"
  read_file :: "string \<Rightarrow> string option"
  zot_smtp :: "string list \<Rightarrow> message \<Rightarrow> exn option"
  paper_authors :: "zitem \<Rightarrow> string list"
  extract_doi :: "zitem \<Rightarrow> string option"

definition extract_file_id_from_drive_url :: "string \<Rightarrow> string option" where
  "extract_file_id_from_drive_url url =
     (if url = [] then None
      else case re_search_group [''/file/d/''] (\<lambda>c. c \<noteq> CHR ''/'') url of
             Some file_id \<Rightarrow> Some file_id
           | None \<Rightarrow>
               (case re_search_group [''?id='', ''&id=''] (\<lambda>c. c \<noteq> CHR ''&'') url of
                  Some file_id \<Rightarrow> Some file_id
                | None \<Rightarrow> re_search_group [''/document/d/''] (\<lambda>c. c \<noteq> CHR ''/'') url))"

definition basename :: "string \<Rightarrow> string" where
  "basename p = rev (takeWhile (\<lambda>c. c \<noteq> CHR ''/'') (rev p))"

record att_item =
  filename :: string
  att_url :: string
  att_path :: "string option"
  att_size :: nat
  success :: bool

record paper_info =
  info_title :: string
  info_authors :: "string list"
  info_doi :: "string option"
  info_attachments :: "att_item list"

text \<open>The loop over the attachments of one paper: an attachment without a link, or
  without a file id in its link, is skipped; the others are downloaded.\<close>

fun process_attachments :: "zot_mail_env \<Rightarrow> attachment list \<Rightarrow> att_item list" where
  "process_attachments menv [] = []"
| "process_attachments menv (a # as) =
     (if \<not> truthy (drive_url a) then process_attachments menv as
      else case extract_file_id_from_drive_url (fstr (drive_url a)) of
             None \<Rightarrow> process_attachments menv as
           | Some file_id \<Rightarrow>
               (case zot_download menv file_id of
                  Some (downloaded_file, n) \<Rightarrow>
                    \<lparr>filename = basename (local_path a), att_url = fstr (drive_url a),
                     att_path = Some downloaded_file, att_size = n, success = True\<rparr>
                | None \<Rightarrow>
                    \<lparr>filename = basename (local_path a), att_url = fstr (drive_url a),
                     att_path = None, att_size = 0, success = False\<rparr>)
               # process_attachments menv as)"

definition paper_info_of :: "zot_mail_env \<Rightarrow> zitem \<Rightarrow> paper_info" where
  "paper_info_of menv paper =
     \<lparr>info_title = (case item_title paper of None \<Rightarrow> ''Unknown'' | Some t \<Rightarrow> t),
      info_authors = paper_authors menv paper,
      info_doi = extract_doi menv paper,
      info_attachments = process_attachments menv (zot_attachments menv paper)\<rparr>"

definition attachment_body_line :: "bool \<Rightarrow> att_item \<Rightarrow> string" where
  "attachment_body_line exceed_size_limit a =
     (if exceed_size_limit \<or> \<not> success a then ''- '' @ filename a @ '' - '' @ att_url a
      else ''- '' @ filename a)"

definition paper_body_lines :: "bool \<Rightarrow> paper_info \<Rightarrow> string list" where
  "paper_body_lines exceed_size_limit p =
     [nl @ ''## '' @ info_title p]
     @ (if info_authors p \<noteq> [] then [''Authors: '' @ str_join ''; '' (info_authors p)] else [])
     @ (if truthy (info_doi p)
        then [''DOI: '' @ fstr (info_doi p) @ '' (https://doi.org/'' @ fstr (info_doi p) @ '')'']
        else [])
     @ [''Attachments:'']
     @ map (attachment_body_line exceed_size_limit) (info_attachments p)"

definition zotero_notice :: string where
  "zotero_notice = nl @ nl @ ''This email was sent automatically via the <a href='' @ [CHR 0x27]
     @ ''https://hoanganhduc.github.io/library/zotero/list-zotero-collection.py'' @ [CHR 0x27]
     @ ''>list-zotero-collection.py</a> script.''"

definition default_body :: "bool \<Rightarrow> bool \<Rightarrow> paper_info list \<Rightarrow> string" where
  "default_body random_paper exceed_size_limit paper_info_list =
     str_join nl
       ([if random_paper then ''Here is a randomly selected journal article:''
         else if exceed_size_limit
         then ''Here are links to the requested paper(s) (exceeds 20MB email limit):''
         else ''Here are the requested paper(s):'']
        @ concat (map (paper_body_lines exceed_size_limit) paper_info_list)
        @ [zotero_notice])"

definition default_subject :: "paper_info list \<Rightarrow> string" where
  "default_subject paper_info_list =
     (if length paper_info_list = 1 then ''Paper: '' @ info_title (hd paper_info_list)
      else ''Papers: '' @ info_title (hd paper_info_list) @ '' and ''
           @ str_of_nat (length paper_info_list - 1) @ '' more'')"

text \<open>\<open>send_email_with_attachments\<close>: one message to all recipients; the result is whether
  the relay accepted it.\<close>

fun attachment_parts :: "zot_mail_env \<Rightarrow> string list \<Rightarrow> part list" where
  "attachment_parts menv [] = []"
| "attachment_parts menv (file_path # ps) =
     (case read_file menv file_path of
        Some payload \<Rightarrow> BinaryPart (basename file_path) payload # attachment_parts menv ps
      | None \<Rightarrow> attachment_parts menv ps)"

definition send_email_with_attachments ::
  "zot_mail_env \<Rightarrow> string \<Rightarrow> string list \<Rightarrow> string \<Rightarrow> string \<Rightarrow> string list \<Rightarrow> world
     \<Rightarrow> bool \<times> world" where
  "send_email_with_attachments menv username to_emails subject body attachments w =
     (let msg = \<lparr>msg_to = str_join '', '' to_emails, msg_from = username, msg_subject = subject,
                 msg_parts = TextPart body # attachment_parts menv attachments\<rparr>;
          w' = w\<lparr>mail_attempts := mail_attempts w @ [(to_emails, msg)]\<rparr>
      in case zot_smtp menv to_emails msg of
           None \<Rightarrow> (True, w')
         | Some e \<Rightarrow> (False, w'))"

text \<open>
  \<open>send_paper_by_email\<close>.  In random mode it takes one of the journal articles of
  \<open>get_items\<close>, at the position given by \<open>r\<close>; otherwise the first \<open>max_papers\<close> papers of
  the title search.  It reads and writes no file of its own: there is no sent-log.
\<close>

definition send_papers ::
  "zot_mail_env \<Rightarrow> bool \<Rightarrow> zitem list \<Rightarrow> string \<Rightarrow> string list \<Rightarrow> string option \<Rightarrow> string option
     \<Rightarrow> world \<Rightarrow> bool \<times> world" where
  "send_papers menv random_paper papers gmail_username recipient_list subject body w =
     (let paper_info_list =
            filter (\<lambda>p. info_attachments p \<noteq> []) (map (paper_info_of menv) papers);
          total_size = sum_list (map att_size (concat (map info_attachments paper_info_list)))
      in if paper_info_list = [] then (False, w)
         else let exceed_size_limit = (total_size > size_limit);
                  subject' = (if truthy subject then fstr subject
                              else default_subject paper_info_list);
                  body' = (if truthy body then fstr body
                           else default_body random_paper exceed_size_limit paper_info_list)
              in if exceed_size_limit
                 then send_email_with_attachments menv gmail_username recipient_list
                        subject' body' [] w
                 else send_email_with_attachments menv gmail_username recipient_list
                        subject' body'
                        (map fstr (filter truthy
                           (map att_path (filter success
                              (concat (map info_attachments paper_info_list))))))
                        w)"

definition send_paper_by_email ::
  "zot_env \<Rightarrow> zot_search_env \<Rightarrow> zot_mail_env \<Rightarrow> string list \<Rightarrow> string \<Rightarrow> string list
     \<Rightarrow> string option \<Rightarrow> string option \<Rightarrow> nat \<Rightarrow> bool \<Rightarrow> nat \<Rightarrow> world \<Rightarrow> (exn + bool) \<times> world" where
  "send_paper_by_email env senv menv title_query gmail_username recipient_list subject body
       max_papers random_paper r w =
     (if random_paper
      then (let all_papers = fst (get_items env [])
            in if all_papers = [] then (Inr False, w)
               else if \<not> zot_google_creds env then (Inr False, w)
               else case send_papers menv random_paper [random_choice r all_papers]
                           gmail_username recipient_list subject body w of
                      (ok, w') \<Rightarrow> (Inr ok, w'))
      else case find_papers_by_title env senv title_query of
             Inl e \<Rightarrow> (Inl e, w)
           | Inr papers \<Rightarrow>
               if papers = [] then (Inr False, w)
               else if \<not> zot_google_creds env then (Inr False, w)
               else case send_papers menv random_paper (take max_papers papers)
                           gmail_username recipient_list subject body w of
                      (ok, w') \<Rightarrow> (Inr ok, w'))"

text \<open>The mail branch of the Zotero \<open>main\<close>, and its listing branch for a collection name
  already looked up.\<close>

definition zot_email_mode ::
  "zot_env \<Rightarrow> zot_search_env \<Rightarrow> zot_mail_env \<Rightarrow> bool \<Rightarrow> string list \<Rightarrow> string option
     \<Rightarrow> string option \<Rightarrow> string list \<Rightarrow> string option \<Rightarrow> string option \<Rightarrow> nat \<Rightarrow> world
     \<Rightarrow> nat \<times> world" where
  "zot_email_mode env senv menv random_flag searches username password recipients subject body
       r w =
     (if \<not> random_flag \<and> searches = [] then (1, w)
      else if \<not> truthy username \<or> \<not> truthy password \<or> recipients = [] then (1, w)
      else case send_paper_by_email env senv menv (if random_flag then [] else searches)
                  (fstr username) recipients subject body 5 random_flag r w of
             (Inl e, w') \<Rightarrow> exit_of (Raise e, w')
           | (Inr True, w') \<Rightarrow> (0, w')
           | (Inr False, w') \<Rightarrow> (1, w'))"

definition zot_list_mode ::
  "zot_env \<Rightarrow> render_env \<Rightarrow> item_formatter \<Rightarrow> item_formatter \<Rightarrow> nat list \<Rightarrow> out_format
     \<Rightarrow> string option \<Rightarrow> string option \<Rightarrow> string option \<Rightarrow> world \<Rightarrow> nat \<times> world" where
  "zot_list_mode env renv fit fih completion fmt file collection_name notice_text w =
     exit_of (display_items renv fit fih completion (fst (get_items env [])) fmt file
                collection_name notice_text w)"

text \<open>The loop invariant of the searches: the results have distinct keys, and these are
  the keys seen.\<close>

definition keys_ok :: "zitem list \<times> string set \<Rightarrow> bool" where
  "keys_ok st = (distinct (map key (fst st)) \<and> set (map key (fst st)) = snd st)"

section \<open>Sample data\<close>

text \<open>Small concrete inputs, on which the theorems below are run.\<close>

definition plain_book :: "int \<Rightarrow> string \<Rightarrow> book" where
  "plain_book i t = \<lparr>book_id = i, title = Some t, authors = [], path = [], pubdate = None,
     isbn = None, series = None, series_index = ''1.0'', publisher = None, formats = [],
     timestamp = []\<rparr>"

definition plain_item :: "string \<Rightarrow> string \<Rightarrow> zitem" where
  "plain_item k t = \<lparr>key = k, itemType = Some ''journalArticle'', item_title = Some t,
     relations = None\<rparr>"

definition no_attachments :: resolver where
  "no_attachments b = Inr []"

definition title_only :: item_formatter where
  "title_only item = Inr (fstr (item_title item))"

definition sample_env :: render_env where
  "sample_env = \<lparr>current_date = ''2025-01-31'',
     generate_html_header = (\<lambda>t n. [''<h1>'' @ t @ ''</h1>'']),
     generate_search_script = [''</html>''],
     pdfkit = (\<lambda>h p. Inr h), open_w = (\<lambda>p. None)\<rparr>"

definition empty_world :: world where
  "empty_world = \<lparr>stdout = [], stderr = [], files = Map.empty, mail_attempts = []\<rparr>"

definition zenv_local :: zot_env where
  "zenv_local = \<lparr>home = ''/home/u'', path_exists = (\<lambda>p. p = ''./zotero.sqlite''),
     sqlite_items = (\<lambda>p. Inr [plain_item ''K0'' ''O'']), zot_google_creds = True,
     drive_sqlite = Inr (Some ''/tmp/z.sqlite''), api_items = Inr [plain_item ''K2'' ''Q'']\<rparr>"










definition algebra_books :: "book list" where
  "algebra_books = [plain_book 1 ''Algebra'', plain_book 2 ''Linear Algebra'',
     plain_book 3 ''Topology'']"

definition sample_senv :: zot_search_env where
  "sample_senv = \<lparr>search_connect = (\<lambda>p. None),
     search_rows = (\<lambda>p q. if q = ''graph'' then ([plain_item ''K1'' ''Graph Theory'',
                                                   plain_item ''K2'' ''Graph Colouring''], None)
                           else ([plain_item ''K2'' ''Graph Colouring'',
                                  plain_item ''K3'' ''Map Colouring''], None)),
     api_search = (\<lambda>q. Inr [plain_item ''K2'' ''Graph Colouring''])\<rparr>"

section \<open>Properties of the report renderers\<close>

lemma insort_key_fst_map:
  "insort_key fst (i, f i) (map (\<lambda>k. (k, f k)) xs) = map (\<lambda>k. (k, f k)) (insort i xs)"
  by (induction xs) auto

lemma sort_key_fst_map:
  "sort_key fst (map (\<lambda>k. (k, f k)) xs) = map (\<lambda>k. (k, f k)) (sort xs)"
  by (induction xs) (simp_all add: insort_key_fst_map)

lemma sort_completion:
  fixes completion :: "nat list"
  assumes "distinct completion" and "set completion = {..<n}"
  shows "sort completion = [0..<n]"
proof -
  have "sort completion = sorted_list_of_set (set completion)"
    using assms(1) by (simp add: sorted_list_of_set_sort_remdups distinct_remdups_id)
  also have "\<dots> = [0..<n]"
    using assms(2) by (simp add: lessThan_atLeast0)
  finally show ?thesis .
qed

lemma gather_in_order:
  fixes completion :: "nat list"
  assumes "distinct completion" and "set completion = {..<n}"
  shows "map snd (sort_key fst (map (\<lambda>k. (k, f k)) completion)) = map f [0..<n]"
  using sort_completion [OF assms] by (simp add: sort_key_fst_map comp_def)

lemma str_of_nat_small:
  "str_of_nat (Suc 0) = ''1''" "str_of_nat (Suc (Suc 0)) = ''2''"
  "str_of_nat (Suc (Suc (Suc 0))) = ''3''" "str_of_nat (Suc (Suc (Suc (Suc 0)))) = ''4''"
  "str_of_nat (Suc (Suc (Suc (Suc (Suc 0))))) = ''5''"
  by (simp_all add: str_of_nat.simps digit_char_def)

text \<open>
  Claim C1.  Whatever the order in which the formatting tasks complete (every submitted
  task completes exactly once), the list of fragments holds the fragment of record \<open>i\<close> at
  position \<open>i\<close>, so the fragment of an earlier record precedes that of a later one.  The
  text report is the header followed by these fragments, the HTML page (from which the PDF
  is made) is the page header, the search box, these fragments and the script, in both
  scripts.
\<close>

theorem render_order:
  assumes "distinct completion" and "set completion = {..<length books}"
    and "distinct zcompletion" and "set zcompletion = {..<length items}"
  shows "generate_books_html g completion books
           = map (\<lambda>i. format_single_book g i (books ! i)) [0..<length books]
       \<and> generate_text_output env g completion categories books
           = str_join nl
               ([report_title (current_date env) categories,
                 replicate (length (report_title (current_date env) categories)) (CHR ''=''), []]
                @ map (\<lambda>i. format_single_book_text g i (books ! i)) [0..<length books])
       \<and> generate_html_output env g completion notice categories books
           = str_join nl
               (generate_html_header env (report_title (current_date env) categories) notice
                @ generate_search_container
                @ map (\<lambda>i. format_single_book g i (books ! i)) [0..<length books]
                @ generate_search_script env)
       \<and> generate_items_html fih cn zcompletion items
           = map (\<lambda>i. format_single_item fih cn i (items ! i)) [0..<length items]
       \<and> zot_generate_text_output env fit zcompletion cn items
           = str_join nl
               ([zot_report_title (current_date env) cn,
                 replicate (length (zot_report_title (current_date env) cn)) (CHR ''=''), []]
                @ map (\<lambda>i. format_single_item_text fit cn i (items ! i)) [0..<length items])
       \<and> zot_generate_html_output env fih zcompletion notice cn items
           = str_join nl
               (generate_html_header env (zot_report_title (current_date env) cn) notice
                @ generate_search_container
                @ map (\<lambda>i. format_single_item fih cn i (items ! i)) [0..<length items]
                @ generate_search_script env)"
proof -
  have b: "generate_books_html g completion books
             = map (\<lambda>i. format_single_book g i (books ! i)) [0..<length books]"
    unfolding generate_books_html_def Let_def by (rule gather_in_order [OF assms(1,2)])
  have z: "generate_items_html fih cn zcompletion items
             = map (\<lambda>i. format_single_item fih cn i (items ! i)) [0..<length items]"
    unfolding generate_items_html_def Let_def by (rule gather_in_order [OF assms(3,4)])
  have bt: "generate_text_output env g completion categories books
           = str_join nl
               ([report_title (current_date env) categories,
                 replicate (length (report_title (current_date env) categories)) (CHR ''=''), []]
                @ map (\<lambda>i. format_single_book_text g i (books ! i)) [0..<length books])"
    unfolding generate_text_output_def Let_def
    by (simp only: gather_in_order [OF assms(1,2)])
  have zt: "zot_generate_text_output env fit zcompletion cn items
           = str_join nl
               ([zot_report_title (current_date env) cn,
                 replicate (length (zot_report_title (current_date env) cn)) (CHR ''=''), []]
                @ map (\<lambda>i. format_single_item_text fit cn i (items ! i)) [0..<length items])"
    unfolding zot_generate_text_output_def Let_def
    by (simp only: gather_in_order [OF assms(3,4)])
  show ?thesis
    using b z bt zt by (simp add: generate_html_output_def zot_generate_html_output_def)
qed

theorem render_order_witness:
  "generate_books_html no_attachments [2, 0, 1]
       [plain_book 7 ''A'', plain_book 3 ''B'', plain_book 5 ''C'']
     = [''<div class='item-number'>Book #1</div>'' @ nl @ ''<div class='item'><h2>A</h2>''
          @ nl @ ''</div>'',
        ''<div class='item-number'>Book #2</div>'' @ nl @ ''<div class='item'><h2>B</h2>''
          @ nl @ ''</div>'',
        ''<div class='item-number'>Book #3</div>'' @ nl @ ''<div class='item'><h2>C</h2>''
          @ nl @ ''</div>'']
   \<and> generate_items_html title_only (Some ''Set'') [1, 0]
       [plain_item ''K1'' ''P'', plain_item ''K2'' ''Q'']
     = [''<div class='item-number'>Set #1</div>'' @ nl @ ''P'',
        ''<div class='item-number'>Set #2</div>'' @ nl @ ''Q'']"
proof -
  let ?books = "[plain_book 7 ''A'', plain_book 3 ''B'', plain_book 5 ''C'']"
  let ?items = "[plain_item ''K1'' ''P'', plain_item ''K2'' ''Q'']"
  have d: "distinct [2, 0, 1 :: nat]" by simp
  have s: "set [2, 0, 1 :: nat] = {..<length ?books}" by auto
  have zd: "distinct [1, 0 :: nat]" by simp
  have zs: "set [1, 0 :: nat] = {..<length ?items}" by auto
  note r = render_order [OF d s zd zs]
  have "generate_books_html no_attachments [2, 0, 1] ?books
          = map (\<lambda>i. format_single_book no_attachments i (?books ! i)) [0..<length ?books]"
    using r by blast
  moreover have "generate_items_html title_only (Some ''Set'') [1, 0] ?items
          = map (\<lambda>i. format_single_item title_only (Some ''Set'') i (?items ! i))
              [0..<length ?items]"
    using r by blast
  ultimately show ?thesis
    by (simp add: format_single_book_def format_book_html_def no_attachments_def
        plain_book_def format_single_item_def plain_item_def title_only_def str_of_nat_small)
qed

text \<open>
  Claim C10.  For an empty list of records the display operation prints the one line
  ``No books found.'' (``No items found.'' in the Zotero script) and returns: nothing else
  is printed and no file is written, whatever the output format and the output file.
\<close>

theorem display_nothing_found:
  "display_books env g completion [] output_format output_file notice categories w
     = (Return, w\<lparr>stdout := stdout w @ [''No books found.'']\<rparr>)
   \<and> display_items env fit fih completion [] output_format output_file cn notice w
     = (Return, w\<lparr>stdout := stdout w @ [''No items found.'']\<rparr>)"
  by (simp add: display_books_def display_items_def print_out_def)

theorem display_nothing_found_witness:
  "display_books sample_env no_attachments [] [] Pdf (Some ''out.pdf'') None [] empty_world
     = (Return, \<lparr>stdout = [''No books found.''], stderr = [], files = Map.empty,
                 mail_attempts = []\<rparr>)
   \<and> display_items sample_env title_only title_only [] [] Pdf (Some ''out.pdf'') None None
       empty_world
     = (Return, \<lparr>stdout = [''No items found.''], stderr = [], files = Map.empty,
                 mail_attempts = []\<rparr>)"
  using display_nothing_found [where env = sample_env and g = no_attachments
      and completion = "[]" and output_format = Pdf and output_file = "Some ''out.pdf''"
      and notice = None and categories = "[]" and w = empty_world and fit = title_only
      and fih = title_only and cn = None]
  by (simp add: empty_world_def)

section \<open>Properties of the source locators\<close>


















section \<open>Properties of the Calibre selector\<close>








section \<open>No record twice\<close>

lemma add_matches_distinct: "distinct sel \<Longrightarrow> distinct (add_matches sel ms)"
  by (induction ms arbitrary: sel) auto

lemma add_matches_subset: "set (add_matches sel ms) \<subseteq> set sel \<union> set ms"
proof (induction ms arbitrary: sel)
  case Nil
  then show ?case by simp
next
  case (Cons m ms)
  let ?sel = "if m \<in> set sel then sel else sel @ [m]"
  have "set (add_matches ?sel ms) \<subseteq> set ?sel \<union> set ms" by (rule Cons.IH)
  moreover have "set ?sel \<subseteq> set sel \<union> {m}" by auto
  ultimately have "set (add_matches ?sel ms) \<subseteq> set sel \<union> set (m # ms)" by auto
  then show ?case by simp
qed

lemma select_by_title_distinct:
  "distinct sel \<Longrightarrow> distinct (fst (select_by_title books qs sel w))"
  by (induction qs arbitrary: sel w) (auto simp: Let_def add_matches_distinct)

lemma select_by_title_subset:
  "set sel \<subseteq> set books \<Longrightarrow> set (fst (select_by_title books qs sel w)) \<subseteq> set books"
proof (induction qs arbitrary: sel w)
  case Nil
  then show ?case by simp
next
  case (Cons q qs)
  have "set (title_matches books q) \<subseteq> set books"
    by (simp add: title_matches_def)
  then have "set (add_matches sel (title_matches books q)) \<subseteq> set books"
    using add_matches_subset [of sel "title_matches books q"] Cons.prems by blast
  then show ?case
    using Cons by (simp add: Let_def)
qed

lemma add_rows_ok: "keys_ok st \<Longrightarrow> keys_ok (add_rows rows st)"
proof (induction rows arbitrary: st)
  case Nil
  then show ?case by (cases st) simp
next
  case (Cons row rows)
  obtain results seen where st: "st = (results, seen)" by (cases st)
  show ?case
  proof (cases "key row \<in> seen")
    case True
    then show ?thesis using Cons st by simp
  next
    case False
    have "keys_ok (results @ [row], insert (key row) seen)"
      using Cons.prems False st by (auto simp: keys_ok_def)
    then show ?thesis using Cons.IH False st by simp
  qed
qed

lemma run_queries_ok: "keys_ok st \<Longrightarrow> keys_ok (run_queries rows_of qs st)"
  by (induction qs arbitrary: st) (auto simp: add_rows_ok split: prod.splits option.splits)

lemma api_add_ok: "keys_ok st \<Longrightarrow> keys_ok (api_add items st)"
proof (induction items arbitrary: st)
  case Nil
  then show ?case by (cases st) simp
next
  case (Cons item items)
  obtain results seen where st: "st = (results, seen)" by (cases st)
  show ?case
  proof (cases "itemType item \<notin> {Some ''attachment'', Some ''note''} \<and> key item \<notin> seen")
    case True
    have "keys_ok (results @ [item], insert (key item) seen)"
      using Cons.prems True st by (auto simp: keys_ok_def)
    then show ?thesis using Cons.IH True st by simp
  next
    case False
    then show ?thesis using Cons st by auto
  qed
qed

lemma api_queries_ok:
  "keys_ok st \<Longrightarrow> api_queries items_of qs st = Inr st' \<Longrightarrow> keys_ok st'"
proof (induction qs arbitrary: st)
  case Nil
  then show ?case by simp
next
  case (Cons q qs)
  show ?case
  proof (cases "items_of q")
    case (Inl e)
    then show ?thesis using Cons.prems by simp
  next
    case (Inr results)
    have "keys_ok (api_add results st)" using Cons.prems(1) by (rule api_add_ok)
    moreover have "api_queries items_of qs (api_add results st) = Inr st'"
      using Cons.prems(2) Inr by simp
    ultimately show ?thesis by (rule Cons.IH)
  qed
qed

lemma keys_ok_start: "keys_ok ([], {})"
  by (simp add: keys_ok_def)

lemma search_sqlite_db_distinct: "distinct (map key (search_sqlite_db senv p qs))"
  using run_queries_ok [OF keys_ok_start, of "search_rows senv p" qs]
  by (simp add: search_sqlite_db_def keys_ok_def split: option.splits)

lemma search_zotero_api_distinct: "distinct (map key (search_zotero_api senv qs))"
proof (cases "api_queries (api_search senv) qs ([], {})")
  case (Inl e)
  then show ?thesis by (simp add: search_zotero_api_def)
next
  case (Inr st)
  then have "keys_ok st" using api_queries_ok [OF keys_ok_start] by blast
  then show ?thesis using Inr by (cases st) (simp add: search_zotero_api_def keys_ok_def)
qed

text \<open>
  Claim C9.  The list of books selected by title holds no book twice, however many queries
  a title matches (and no book identifier twice when the catalogue holds none twice).  The
  results of a search of a database for several terms, of a search through the API for
  several terms, and of \<open>find_papers_by_title\<close> hold no record key twice.
\<close>

theorem no_record_twice:
  "distinct (fst (select_by_title books title_queries [] w))
   \<and> (distinct (map book_id books)
        \<longrightarrow> distinct (map book_id (fst (select_by_title books title_queries [] w))))
   \<and> distinct (map key (search_sqlite_db senv sqlite_path queries))
   \<and> distinct (map key (search_zotero_api senv queries))
   \<and> (find_papers_by_title env senv queries = Inr papers \<longrightarrow> distinct (map key papers))"
proof -
  have d: "distinct (fst (select_by_title books title_queries [] w))"
    by (rule select_by_title_distinct) simp
  have s: "set (fst (select_by_title books title_queries [] w)) \<subseteq> set books"
    by (rule select_by_title_subset) simp
  have i: "distinct (map book_id books)
        \<longrightarrow> distinct (map book_id (fst (select_by_title books title_queries [] w)))"
  proof
    assume "distinct (map book_id books)"
    then have "inj_on book_id (set books)" by (simp add: distinct_map)
    then have "inj_on book_id (set (fst (select_by_title books title_queries [] w)))"
      using s by (rule inj_on_subset)
    then show "distinct (map book_id (fst (select_by_title books title_queries [] w)))"
      using d by (simp add: distinct_map)
  qed
  have f: "find_papers_by_title env senv queries = Inr papers \<longrightarrow> distinct (map key papers)"
    by (auto simp: find_papers_by_title_def Let_def search_local_sqlite_def
        search_drive_sqlite_def search_sqlite_db_distinct search_zotero_api_distinct
        split: if_splits sum.splits option.splits)
  show ?thesis
    using d i f search_sqlite_db_distinct search_zotero_api_distinct by blast
qed


lemma sample_title_selection:
  "fst (select_by_title algebra_books [''algebra'', ''LINEAR''] [] empty_world)
     = [plain_book 1 ''Algebra'', plain_book 2 ''Linear Algebra'']"
  by (simp add: algebra_books_def title_matches_def plain_book_def str_lower_def lower_char_def
      upper_letters_def lower_letters_def Let_def)

lemma sample_search:
  "find_papers_by_title zenv_local sample_senv [''graph'', ''colouring'']
     = Inr [plain_item ''K1'' ''Graph Theory'', plain_item ''K2'' ''Graph Colouring'',
            plain_item ''K3'' ''Map Colouring'']"
  by (simp add: find_papers_by_title_def search_local_sqlite_def search_sqlite_db_def
      zenv_local_def local_paths_def sample_senv_def plain_item_def Let_def)

theorem no_record_twice_witness:
  "fst (select_by_title algebra_books [''algebra'', ''LINEAR''] [] empty_world)
     = [plain_book 1 ''Algebra'', plain_book 2 ''Linear Algebra'']
   \<and> distinct (map book_id
        (fst (select_by_title algebra_books [''algebra'', ''LINEAR''] [] empty_world)))
   \<and> find_papers_by_title zenv_local sample_senv [''graph'', ''colouring'']
     = Inr [plain_item ''K1'' ''Graph Theory'', plain_item ''K2'' ''Graph Colouring'',
            plain_item ''K3'' ''Map Colouring'']
   \<and> distinct (map key [plain_item ''K1'' ''Graph Theory'', plain_item ''K2'' ''Graph Colouring'',
            plain_item ''K3'' ''Map Colouring''])"
proof -
  have d: "distinct (map book_id algebra_books)"
    by (simp add: algebra_books_def plain_book_def)
  note t = no_record_twice [where books = algebra_books
      and title_queries = "[''algebra'', ''LINEAR'']" and w = empty_world
      and env = zenv_local and senv = sample_senv and queries = "[''graph'', ''colouring'']"
      and papers = "[plain_item ''K1'' ''Graph Theory'', plain_item ''K2'' ''Graph Colouring'',
            plain_item ''K3'' ''Map Colouring'']"]
  have 1: "distinct (map book_id
        (fst (select_by_title algebra_books [''algebra'', ''LINEAR''] [] empty_world)))"
    using t d by blast
  have 2: "distinct (map key [plain_item ''K1'' ''Graph Theory'',
      plain_item ''K2'' ''Graph Colouring'', plain_item ''K3'' ''Map Colouring''])"
    using t sample_search by blast
  show ?thesis
    using 1 2 sample_title_selection sample_search by blast
qed

end
